theory Spec2Isabelle
  imports Complex_Main
begin

section \<open>Data model\<close>

text \<open>
  The bot of \<^verbatim>\<open>src/bot.py\<close> (class \<^verbatim>\<open>AdvancedFreestyleBot\<close>) reads a game tick packet
  and returns controller inputs. Python floats are modelled as \<^typ>\<open>real\<close> (no rounding),
  the integer boost reserve as \<^typ>\<open>int\<close>.
\<close>

datatype Vec3 = Vec3 (vec_x: real) (vec_y: real) (vec_z: real)

record Physics =
  location :: Vec3
  velocity :: Vec3

text \<open>\<^verbatim>\<open>my_car.boost\<close> is the field \<open>car_boost\<close>: the name \<open>boost\<close> is the controller's button.\<close>

record PlayerInfo =
  physics :: Physics
  car_boost :: int
  is_super_sonic :: bool
  has_wheel_contact :: bool

record BallInfo =
  ball_physics :: Physics

record GameInfo =
  seconds_elapsed :: real

record GameTickPacket =
  game_cars :: "PlayerInfo list"
  game_ball :: BallInfo
  game_info :: GameInfo

text \<open>A slice of the ball prediction: \<^verbatim>\<open>slice.physics\<close> and \<^verbatim>\<open>slice.game_seconds\<close>.\<close>

record Slice =
  slice_physics :: Physics
  game_seconds :: real

text \<open>\<^verbatim>\<open>SimpleControllerState\<close> of the framework: every field defaults to neutral.\<close>

record SimpleControllerState =
  steer :: real
  throttle :: real
  pitch :: real
  yaw :: real
  roll :: real
  jump :: bool
  boost :: bool
  handbrake :: bool
  use_item :: bool

definition SimpleControllerState_init :: SimpleControllerState where
  "SimpleControllerState_init =
     \<lparr>steer = 0, throttle = 0, pitch = 0, yaw = 0, roll = 0,
      jump = False, boost = False, handbrake = False, use_item = False\<rparr>"

record ControlStep =
  duration :: real
  controls :: SimpleControllerState

record Sequence =
  steps :: "ControlStep list"
  start_time :: "real option"
  elapsed :: real
  is_done :: bool

text \<open>
  The members of the framework's \<^verbatim>\<open>QuickChatSelection\<close> that the bot sends. The
  enumeration has no member \<^verbatim>\<open>Reactions_NoProblem\<close> (its member is \<^verbatim>\<open>Apologies_NoProblem\<close>):
  reading that attribute, as \<^verbatim>\<open>ceiling_shuffle\<close> does, raises \<^verbatim>\<open>AttributeError\<close>.
\<close>

datatype QuickChatSelection =
    Reactions_Calculated
  | Reactions_Siiiick
  | Reactions_Wow
  | Reactions_OMG
  | Information_IGotIt

datatype error = IndexError | AttributeError

text \<open>
  The fields of \<^verbatim>\<open>AdvancedFreestyleBot.__init__\<close>. \<open>quick_chats\<close> is the log of the
  \<^verbatim>\<open>send_quick_chat\<close> calls, the only effect of the bot outside its own fields.
\<close>

record 'b AdvancedFreestyleBot =
  index :: nat
  active_sequence :: "Sequence option"
  boost_pad_tracker :: 'b
  last_aerial_time :: real
  aerial_cooldown :: real
  tricks_performed :: nat
  last_trick_type :: "string option"
  quick_chats :: "QuickChatSelection list"

definition AdvancedFreestyleBot_init :: "nat \<Rightarrow> 'b \<Rightarrow> 'b AdvancedFreestyleBot" where
  "AdvancedFreestyleBot_init i pads =
     \<lparr>index = i, active_sequence = None, boost_pad_tracker = pads,
      last_aerial_time = 0, aerial_cooldown = 3.0, tricks_performed = 0,
      last_trick_type = None, quick_chats = []\<rparr>"

section \<open>Aerial eligibility\<close>

definition check_aerial_conditions ::
  "'b AdvancedFreestyleBot \<Rightarrow> PlayerInfo \<Rightarrow> Vec3 \<Rightarrow> real \<Rightarrow> real \<Rightarrow> real \<Rightarrow> bool" where
  "check_aerial_conditions self my_car ball_location ball_height distance_to_ball time_since_aerial =
     (ball_height > 350 \<and>
      (400 < distance_to_ball \<and> distance_to_ball < 2200) \<and>
      car_boost my_car > 35 \<and>
      time_since_aerial > aerial_cooldown self \<and>
      \<not> is_super_sonic my_car \<and>
      has_wheel_contact my_car)"

section \<open>Collaborators outside the sources\<close>

text \<open>
  The helpers that \<^verbatim>\<open>bot.py\<close> imports from \<^verbatim>\<open>util/vec.py\<close>, \<^verbatim>\<open>util/drive.py\<close> and
  \<^verbatim>\<open>util/boost_pad_tracker.py\<close> are not among the sources and the specification does not
  describe them; the bot is modelled over any choice of them: the update of the boost pad
  tracker, the difference and the length of \<^verbatim>\<open>Vec3\<close>, and \<^verbatim>\<open>steer_toward_target\<close>.
\<close>

record 'b Host =
  update_boost_status :: "GameTickPacket \<Rightarrow> 'b \<Rightarrow> 'b"
  vec_sub :: "Vec3 \<Rightarrow> Vec3 \<Rightarrow> Vec3"
  vec_length :: "Vec3 \<Rightarrow> real"
  steer_toward_target :: "PlayerInfo \<Rightarrow> Vec3 \<Rightarrow> real"

section \<open>Trajectory sampler\<close>

text \<open>
  Modelled from the spec: \<^verbatim>\<open>find_slice_at_time\<close> of \<^verbatim>\<open>util/ball_prediction_analysis.py\<close> is
  not among the sources. Section 4.1 of the specification (\<^verbatim>\<open>sample_at\<close>): a search through the
  time-ascending slices for the closest sample at or after the target time, that is the
  first slice whose timestamp is not before it; nothing when there is none.
\<close>

fun find_slice_at_time :: "Slice list \<Rightarrow> real \<Rightarrow> Slice option" where
  "find_slice_at_time [] game_time = None"
| "find_slice_at_time (s # ss) game_time =
     (if game_time \<le> game_seconds s then Some s else find_slice_at_time ss game_time)"

section \<open>Timed control sequence\<close>

text \<open>
  Modelled from the spec: the classes \<^verbatim>\<open>Sequence\<close> and \<^verbatim>\<open>ControlStep\<close> of
  \<^verbatim>\<open>util/sequence.py\<close> are not among the sources. Sections 3 and 4.2 of the specification:
  a new sequence is pending, with zero elapsed time and not done.
\<close>

definition Sequence_init :: "ControlStep list \<Rightarrow> Sequence" where
  "Sequence_init ss = \<lparr>steps = ss, start_time = None, elapsed = 0, is_done = False\<rparr>"

text \<open>
  Modelled from the spec: the active step of \<^verbatim>\<open>util/sequence.py\<close> (not among the sources),
  "the smallest index such that the cumulative duration of all steps up to and including it
  exceeds elapsed time". \<open>cumulative\<close> is the duration of the steps already passed, \<open>i\<close>
  the index of the head of the list.
\<close>

fun active_index :: "ControlStep list \<Rightarrow> real \<Rightarrow> real \<Rightarrow> nat \<Rightarrow> nat option" where
  "active_index [] cumulative e i = None"
| "active_index (s # ss) cumulative e i =
     (if cumulative + duration s > e then Some i
      else active_index ss (cumulative + duration s) e (Suc i))"

text \<open>
  Modelled from the spec: the transition of \<^verbatim>\<open>util/sequence.py\<close> (not among the sources) at
  a given elapsed time. With no active index the sequence becomes done and yields nothing;
  otherwise it yields the control output of the active step. Nothing resets the done flag.
\<close>

definition advance :: "real \<Rightarrow> Sequence \<Rightarrow> SimpleControllerState option \<times> Sequence" where
  "advance e q =
     (case active_index (steps q) 0 e 0 of
        None \<Rightarrow> (None, q\<lparr>elapsed := e, is_done := True\<rparr>)
      | Some i \<Rightarrow> (Some (controls (steps q ! i)), q\<lparr>elapsed := e\<rparr>))"

text \<open>
  Modelled from the spec: \<^verbatim>\<open>Sequence.tick\<close> of \<^verbatim>\<open>util/sequence.py\<close> (not among the sources).
  "Elapsed time is recomputed from the caller-supplied game clock": the first call fixes the
  start of the sequence at the clock it is given, so that a pending sequence has zero
  elapsed time.
\<close>

definition tick :: "GameTickPacket \<Rightarrow> Sequence \<Rightarrow> SimpleControllerState option \<times> Sequence" where
  "tick packet q =
     (let now = seconds_elapsed (game_info packet);
          t0 = (case start_time q of None \<Rightarrow> now | Some t \<Rightarrow> t)
      in advance (now - t0) (q\<lparr>start_time := Some t0\<rparr>))"

text \<open>The total planned duration of a step list, and the elapsed time a tick would compute.\<close>

definition total_duration :: "ControlStep list \<Rightarrow> real" where
  "total_duration ss = sum_list (map duration ss)"

definition elapsed_at :: "Sequence \<Rightarrow> GameTickPacket \<Rightarrow> real" where
  "elapsed_at q packet =
     seconds_elapsed (game_info packet) -
       (case start_time q of None \<Rightarrow> seconds_elapsed (game_info packet) | Some t \<Rightarrow> t)"

text \<open>Successive ticks of one sequence, one per packet, with the outputs in order.\<close>

fun tick_all :: "GameTickPacket list \<Rightarrow> Sequence \<Rightarrow> SimpleControllerState option list \<times> Sequence" where
  "tick_all [] q = ([], q)"
| "tick_all (p # ps) q =
     (let (out, q') = tick p q; (outs, q'') = tick_all ps q' in (out # outs, q''))"

section \<open>The behaviour templates\<close>

definition tornado_aerial_steps :: "ControlStep list" where
  "tornado_aerial_steps =
     [\<lparr>duration = 0.1, controls = SimpleControllerState_init\<lparr>jump := True, boost := True\<rparr>\<rparr>,
      \<lparr>duration = 0.05, controls = SimpleControllerState_init\<lparr>jump := False, boost := True\<rparr>\<rparr>,
      \<lparr>duration = 0.1, controls = SimpleControllerState_init\<lparr>jump := True, boost := True, pitch := - 0.4\<rparr>\<rparr>,
      \<lparr>duration = 0.15, controls = SimpleControllerState_init\<lparr>boost := True, pitch := - 0.3, roll := 1.0, yaw := 1.0\<rparr>\<rparr>,
      \<lparr>duration = 0.15, controls = SimpleControllerState_init\<lparr>boost := True, pitch := - 0.2, roll := 1.0, yaw := - 1.0\<rparr>\<rparr>,
      \<lparr>duration = 0.15, controls = SimpleControllerState_init\<lparr>boost := True, pitch := - 0.3, roll := 1.0, yaw := 1.0\<rparr>\<rparr>,
      \<lparr>duration = 0.15, controls = SimpleControllerState_init\<lparr>boost := True, pitch := - 0.2, roll := 1.0, yaw := - 1.0\<rparr>\<rparr>,
      \<lparr>duration = 0.2, controls = SimpleControllerState_init\<lparr>boost := True, pitch := - 0.9, roll := 0.5\<rparr>\<rparr>,
      \<lparr>duration = 0.4, controls = SimpleControllerState_init\<lparr>pitch := 1.0, roll := 0\<rparr>\<rparr>]"

definition kuxir_twist_steps :: "ControlStep list" where
  "kuxir_twist_steps =
     [\<lparr>duration = 0.1, controls = SimpleControllerState_init\<lparr>jump := True, boost := True\<rparr>\<rparr>,
      \<lparr>duration = 0.05, controls = SimpleControllerState_init\<lparr>jump := False, boost := True\<rparr>\<rparr>,
      \<lparr>duration = 0.1, controls = SimpleControllerState_init\<lparr>jump := True, boost := True, pitch := 1.0\<rparr>\<rparr>,
      \<lparr>duration = 0.2, controls = SimpleControllerState_init\<lparr>boost := True, pitch := 0.5, roll := - 1.0, yaw := 0.8\<rparr>\<rparr>,
      \<lparr>duration = 0.2, controls = SimpleControllerState_init\<lparr>boost := True, pitch := 0.3, roll := - 1.0, yaw := - 0.8\<rparr>\<rparr>,
      \<lparr>duration = 0.2, controls = SimpleControllerState_init\<lparr>boost := True, pitch := 0.5, roll := - 1.0, yaw := 0.8\<rparr>\<rparr>,
      \<lparr>duration = 0.2, controls = SimpleControllerState_init\<lparr>boost := True, pitch := - 0.5, roll := 0.5\<rparr>\<rparr>,
      \<lparr>duration = 0.4, controls = SimpleControllerState_init\<lparr>pitch := 1.0, roll := 0\<rparr>\<rparr>]"

definition air_roll_shot_steps :: "ControlStep list" where
  "air_roll_shot_steps =
     [\<lparr>duration = 0.1, controls = SimpleControllerState_init\<lparr>jump := True, boost := True\<rparr>\<rparr>,
      \<lparr>duration = 0.05, controls = SimpleControllerState_init\<lparr>jump := False, boost := True\<rparr>\<rparr>,
      \<lparr>duration = 0.1, controls = SimpleControllerState_init\<lparr>jump := True, boost := True, pitch := - 0.5\<rparr>\<rparr>,
      \<lparr>duration = 0.25, controls = SimpleControllerState_init\<lparr>boost := True, pitch := - 0.4, roll := 1.0\<rparr>\<rparr>,
      \<lparr>duration = 0.25, controls = SimpleControllerState_init\<lparr>boost := True, pitch := - 0.4, roll := 1.0\<rparr>\<rparr>,
      \<lparr>duration = 0.25, controls = SimpleControllerState_init\<lparr>boost := True, pitch := - 0.5, roll := 1.0\<rparr>\<rparr>,
      \<lparr>duration = 0.15, controls = SimpleControllerState_init\<lparr>boost := True, pitch := - 1.0, roll := 0\<rparr>\<rparr>,
      \<lparr>duration = 0.4, controls = SimpleControllerState_init\<lparr>pitch := 1.0\<rparr>\<rparr>]"

definition ceiling_shuffle_steps :: "ControlStep list" where
  "ceiling_shuffle_steps =
     [\<lparr>duration = 0.1, controls = SimpleControllerState_init\<lparr>jump := True, boost := True\<rparr>\<rparr>,
      \<lparr>duration = 0.05, controls = SimpleControllerState_init\<lparr>jump := False, boost := True\<rparr>\<rparr>,
      \<lparr>duration = 0.15, controls = SimpleControllerState_init\<lparr>jump := True, boost := True, pitch := 0.5, roll := - 1.0\<rparr>\<rparr>,
      \<lparr>duration = 0.15, controls = SimpleControllerState_init\<lparr>boost := True, pitch := - 0.2, roll := 1.0, yaw := 0.5\<rparr>\<rparr>,
      \<lparr>duration = 0.15, controls = SimpleControllerState_init\<lparr>boost := True, pitch := - 0.2, roll := - 1.0, yaw := - 0.5\<rparr>\<rparr>,
      \<lparr>duration = 0.15, controls = SimpleControllerState_init\<lparr>boost := True, pitch := - 0.3, roll := 1.0, yaw := 0.5\<rparr>\<rparr>,
      \<lparr>duration = 0.15, controls = SimpleControllerState_init\<lparr>boost := True, pitch := - 0.3, roll := - 1.0, yaw := - 0.5\<rparr>\<rparr>,
      \<lparr>duration = 0.2, controls = SimpleControllerState_init\<lparr>boost := True, pitch := - 0.8\<rparr>\<rparr>,
      \<lparr>duration = 0.4, controls = SimpleControllerState_init\<lparr>pitch := 1.0\<rparr>\<rparr>]"

definition spinning_aerial_steps :: "ControlStep list" where
  "spinning_aerial_steps =
     [\<lparr>duration = 0.1, controls = SimpleControllerState_init\<lparr>jump := True, boost := True\<rparr>\<rparr>,
      \<lparr>duration = 0.05, controls = SimpleControllerState_init\<lparr>jump := False, boost := True\<rparr>\<rparr>,
      \<lparr>duration = 0.1, controls = SimpleControllerState_init\<lparr>jump := True, boost := True, pitch := - 0.4\<rparr>\<rparr>,
      \<lparr>duration = 0.3, controls = SimpleControllerState_init\<lparr>boost := True, pitch := - 0.3, roll := - 1.0\<rparr>\<rparr>,
      \<lparr>duration = 0.3, controls = SimpleControllerState_init\<lparr>boost := True, pitch := - 0.4, roll := - 1.0\<rparr>\<rparr>,
      \<lparr>duration = 0.2, controls = SimpleControllerState_init\<lparr>boost := True, pitch := - 0.8\<rparr>\<rparr>,
      \<lparr>duration = 0.4, controls = SimpleControllerState_init\<lparr>pitch := 1.0\<rparr>\<rparr>]"

definition basic_freestyle_aerial_steps :: "ControlStep list" where
  "basic_freestyle_aerial_steps =
     [\<lparr>duration = 0.1, controls = SimpleControllerState_init\<lparr>jump := True, boost := True\<rparr>\<rparr>,
      \<lparr>duration = 0.05, controls = SimpleControllerState_init\<lparr>jump := False, boost := True\<rparr>\<rparr>,
      \<lparr>duration = 0.1, controls = SimpleControllerState_init\<lparr>jump := True, boost := True, pitch := - 0.5\<rparr>\<rparr>,
      \<lparr>duration = 0.2, controls = SimpleControllerState_init\<lparr>boost := True, pitch := - 0.4, roll := - 1.0, yaw := 0.3\<rparr>\<rparr>,
      \<lparr>duration = 0.2, controls = SimpleControllerState_init\<lparr>boost := True, pitch := - 0.5, roll := 1.0, yaw := - 0.3\<rparr>\<rparr>,
      \<lparr>duration = 0.25, controls = SimpleControllerState_init\<lparr>boost := True, pitch := - 0.7\<rparr>\<rparr>,
      \<lparr>duration = 0.4, controls = SimpleControllerState_init\<lparr>pitch := 1.0\<rparr>\<rparr>]"

definition psycho_steps :: "ControlStep list" where
  "psycho_steps =
     [\<lparr>duration = 0.1, controls = SimpleControllerState_init\<lparr>jump := True, boost := True, pitch := 0.3\<rparr>\<rparr>,
      \<lparr>duration = 0.05, controls = SimpleControllerState_init\<lparr>jump := False, boost := True\<rparr>\<rparr>,
      \<lparr>duration = 0.1, controls = SimpleControllerState_init\<lparr>jump := True, boost := True, pitch := 0.8\<rparr>\<rparr>,
      \<lparr>duration = 0.2, controls = SimpleControllerState_init\<lparr>boost := True, pitch := 0.6, roll := 1.0, yaw := 0.5\<rparr>\<rparr>,
      \<lparr>duration = 0.2, controls = SimpleControllerState_init\<lparr>boost := True, pitch := 0.4, roll := 1.0, yaw := - 0.5\<rparr>\<rparr>,
      \<lparr>duration = 0.2, controls = SimpleControllerState_init\<lparr>boost := True, pitch := 0.5, roll := 1.0, yaw := 0.5\<rparr>\<rparr>,
      \<lparr>duration = 0.2, controls = SimpleControllerState_init\<lparr>boost := True, pitch := 0.3, roll := 1.0, yaw := - 0.5\<rparr>\<rparr>,
      \<lparr>duration = 0.15, controls = SimpleControllerState_init\<lparr>boost := True, pitch := - 0.5, roll := 1.0\<rparr>\<rparr>,
      \<lparr>duration = 0.15, controls = SimpleControllerState_init\<lparr>boost := True, pitch := - 0.8, roll := 0.5\<rparr>\<rparr>,
      \<lparr>duration = 0.5, controls = SimpleControllerState_init\<lparr>pitch := 1.0, roll := 0\<rparr>\<rparr>]"

definition musty_flick_steps :: "ControlStep list" where
  "musty_flick_steps =
     [\<lparr>duration = 0.1, controls = SimpleControllerState_init\<lparr>jump := True, boost := True\<rparr>\<rparr>,
      \<lparr>duration = 0.05, controls = SimpleControllerState_init\<lparr>jump := False, boost := True\<rparr>\<rparr>,
      \<lparr>duration = 0.1, controls = SimpleControllerState_init\<lparr>jump := True, boost := True, pitch := - 0.3\<rparr>\<rparr>,
      \<lparr>duration = 0.15, controls = SimpleControllerState_init\<lparr>boost := True, pitch := 0.6\<rparr>\<rparr>,
      \<lparr>duration = 0.15, controls = SimpleControllerState_init\<lparr>boost := True, pitch := 0.8\<rparr>\<rparr>,
      \<lparr>duration = 0.15, controls = SimpleControllerState_init\<lparr>boost := True, pitch := 1.0\<rparr>\<rparr>,
      \<lparr>duration = 0.1, controls = SimpleControllerState_init\<lparr>jump := True, pitch := 1.0, boost := False\<rparr>\<rparr>,
      \<lparr>duration = 0.2, controls = SimpleControllerState_init\<lparr>pitch := 1.0, boost := False\<rparr>\<rparr>,
      \<lparr>duration = 0.5, controls = SimpleControllerState_init\<lparr>pitch := - 1.0, roll := 0\<rparr>\<rparr>,
      \<lparr>duration = 0.3, controls = SimpleControllerState_init\<lparr>pitch := 1.0, roll := 0\<rparr>\<rparr>]"

definition flip_reset_steps :: "ControlStep list" where
  "flip_reset_steps =
     [\<lparr>duration = 0.1, controls = SimpleControllerState_init\<lparr>jump := True, boost := True\<rparr>\<rparr>,
      \<lparr>duration = 0.05, controls = SimpleControllerState_init\<lparr>jump := False, boost := True\<rparr>\<rparr>,
      \<lparr>duration = 0.1, controls = SimpleControllerState_init\<lparr>jump := True, boost := True, pitch := - 0.4\<rparr>\<rparr>,
      \<lparr>duration = 0.2, controls = SimpleControllerState_init\<lparr>boost := True, pitch := - 0.3\<rparr>\<rparr>,
      \<lparr>duration = 0.15, controls = SimpleControllerState_init\<lparr>boost := True, pitch := 0.6, roll := 0.3\<rparr>\<rparr>,
      \<lparr>duration = 0.15, controls = SimpleControllerState_init\<lparr>boost := True, pitch := 0.8, roll := - 0.3\<rparr>\<rparr>,
      \<lparr>duration = 0.15, controls = SimpleControllerState_init\<lparr>boost := True, pitch := 0.9, roll := 0\<rparr>\<rparr>,
      \<lparr>duration = 0.1, controls = SimpleControllerState_init\<lparr>boost := True, pitch := - 0.3\<rparr>\<rparr>,
      \<lparr>duration = 0.05, controls = SimpleControllerState_init\<lparr>jump := True, boost := True\<rparr>\<rparr>,
      \<lparr>duration = 0.2, controls = SimpleControllerState_init\<lparr>jump := True, pitch := - 1.0, yaw := 0.4, boost := True\<rparr>\<rparr>,
      \<lparr>duration = 0.5, controls = SimpleControllerState_init\<lparr>pitch := 1.0\<rparr>\<rparr>]"

definition diagonal_flip_steps :: "ControlStep list" where
  "diagonal_flip_steps =
     [\<lparr>duration = 0.05, controls = SimpleControllerState_init\<lparr>jump := True\<rparr>\<rparr>,
      \<lparr>duration = 0.05, controls = SimpleControllerState_init\<lparr>jump := False\<rparr>\<rparr>,
      \<lparr>duration = 0.2, controls = SimpleControllerState_init\<lparr>jump := True, pitch := - 1, yaw := 0.4\<rparr>\<rparr>,
      \<lparr>duration = 0.8, controls = SimpleControllerState_init\<rparr>]"

definition speed_flip_steps :: "ControlStep list" where
  "speed_flip_steps =
     [\<lparr>duration = 0.05, controls = SimpleControllerState_init\<lparr>jump := True, boost := True, pitch := 0.2\<rparr>\<rparr>,
      \<lparr>duration = 0.05, controls = SimpleControllerState_init\<lparr>jump := False, boost := True\<rparr>\<rparr>,
      \<lparr>duration = 0.12, controls = SimpleControllerState_init\<lparr>jump := True, pitch := - 1.0, yaw := - 0.25, boost := True\<rparr>\<rparr>,
      \<lparr>duration = 0.18, controls = SimpleControllerState_init\<lparr>pitch := 1.0, yaw := - 0.15, roll := - 0.4, boost := True\<rparr>\<rparr>,
      \<lparr>duration = 0.15, controls = SimpleControllerState_init\<lparr>pitch := 0.3, roll := - 0.5, boost := True\<rparr>\<rparr>,
      \<lparr>duration = 0.3, controls = SimpleControllerState_init\<lparr>boost := True, throttle := 1.0\<rparr>\<rparr>]"

text \<open>
  Every trick but \<^verbatim>\<open>ceiling_shuffle\<close> sends its quick chat (the diagonal flip sends none),
  replaces the active sequence by a new one and returns the first tick of it:
  \<^verbatim>\<open>self.active_sequence = Sequence([...])\<close>, then \<^verbatim>\<open>return self.active_sequence.tick(packet)\<close>.
\<close>

definition send_quick_chat :: "QuickChatSelection \<Rightarrow> 'b AdvancedFreestyleBot \<Rightarrow> 'b AdvancedFreestyleBot" where
  "send_quick_chat quick_chat self = self\<lparr>quick_chats := quick_chats self @ [quick_chat]\<rparr>"

definition start_sequence ::
  "GameTickPacket \<Rightarrow> ControlStep list \<Rightarrow> 'b AdvancedFreestyleBot \<Rightarrow>
   SimpleControllerState option \<times> 'b AdvancedFreestyleBot" where
  "start_sequence packet ss self =
     (let (out, q) = tick packet (Sequence_init ss) in (out, self\<lparr>active_sequence := Some q\<rparr>))"

definition tornado_aerial ::
  "GameTickPacket \<Rightarrow> Vec3 \<Rightarrow> 'b AdvancedFreestyleBot \<Rightarrow>
   SimpleControllerState option \<times> 'b AdvancedFreestyleBot" where
  "tornado_aerial packet target self = start_sequence packet tornado_aerial_steps (send_quick_chat Reactions_Calculated self)"

definition kuxir_twist ::
  "GameTickPacket \<Rightarrow> Vec3 \<Rightarrow> 'b AdvancedFreestyleBot \<Rightarrow>
   SimpleControllerState option \<times> 'b AdvancedFreestyleBot" where
  "kuxir_twist packet target self = start_sequence packet kuxir_twist_steps (send_quick_chat Reactions_Siiiick self)"

definition air_roll_shot ::
  "GameTickPacket \<Rightarrow> Vec3 \<Rightarrow> 'b AdvancedFreestyleBot \<Rightarrow>
   SimpleControllerState option \<times> 'b AdvancedFreestyleBot" where
  "air_roll_shot packet target self = start_sequence packet air_roll_shot_steps (send_quick_chat Reactions_Wow self)"

text \<open>
  The first statement of \<^verbatim>\<open>ceiling_shuffle\<close> reads \<^verbatim>\<open>QuickChatSelection.Reactions_NoProblem\<close>,
  which the enumeration does not have: the method raises \<^verbatim>\<open>AttributeError\<close> there, before any
  chat is sent and before a sequence is installed. The steps of \<open>ceiling_shuffle_steps\<close>,
  written below that statement, are never reached.
\<close>

definition ceiling_shuffle ::
  "GameTickPacket \<Rightarrow> Vec3 \<Rightarrow> 'b AdvancedFreestyleBot \<Rightarrow>
   error + (SimpleControllerState option \<times> 'b AdvancedFreestyleBot)" where
  "ceiling_shuffle packet target self = Inl AttributeError"

definition spinning_aerial ::
  "GameTickPacket \<Rightarrow> Vec3 \<Rightarrow> 'b AdvancedFreestyleBot \<Rightarrow>
   SimpleControllerState option \<times> 'b AdvancedFreestyleBot" where
  "spinning_aerial packet target self = start_sequence packet spinning_aerial_steps (send_quick_chat Reactions_OMG self)"

definition basic_freestyle_aerial ::
  "GameTickPacket \<Rightarrow> Vec3 \<Rightarrow> 'b AdvancedFreestyleBot \<Rightarrow>
   SimpleControllerState option \<times> 'b AdvancedFreestyleBot" where
  "basic_freestyle_aerial packet target self = start_sequence packet basic_freestyle_aerial_steps (send_quick_chat Information_IGotIt self)"

definition psycho ::
  "GameTickPacket \<Rightarrow> Vec3 \<Rightarrow> 'b AdvancedFreestyleBot \<Rightarrow>
   SimpleControllerState option \<times> 'b AdvancedFreestyleBot" where
  "psycho packet target self = start_sequence packet psycho_steps (send_quick_chat Reactions_Siiiick self)"

definition musty_flick ::
  "GameTickPacket \<Rightarrow> Vec3 \<Rightarrow> 'b AdvancedFreestyleBot \<Rightarrow>
   SimpleControllerState option \<times> 'b AdvancedFreestyleBot" where
  "musty_flick packet target self = start_sequence packet musty_flick_steps (send_quick_chat Reactions_Wow self)"

definition flip_reset ::
  "GameTickPacket \<Rightarrow> Vec3 \<Rightarrow> 'b AdvancedFreestyleBot \<Rightarrow>
   SimpleControllerState option \<times> 'b AdvancedFreestyleBot" where
  "flip_reset packet target self = start_sequence packet flip_reset_steps (send_quick_chat Reactions_Calculated self)"

definition diagonal_flip ::
  "GameTickPacket \<Rightarrow> 'b AdvancedFreestyleBot \<Rightarrow>
   SimpleControllerState option \<times> 'b AdvancedFreestyleBot" where
  "diagonal_flip packet self = start_sequence packet diagonal_flip_steps self"

definition speed_flip ::
  "GameTickPacket \<Rightarrow> 'b AdvancedFreestyleBot \<Rightarrow>
   SimpleControllerState option \<times> 'b AdvancedFreestyleBot" where
  "speed_flip packet self = start_sequence packet speed_flip_steps (send_quick_chat Reactions_Siiiick self)"

section \<open>Decision logic\<close>

text \<open>The lookahead of \<^verbatim>\<open>find_aerial_target\<close>: its first two statements.\<close>

definition aerial_lookahead :: "real \<Rightarrow> real" where
  "aerial_lookahead distance =
     (let lookahead = 0.5 + (distance / 1500.0) in min lookahead 2.5)"

definition find_aerial_target :: "Slice list \<Rightarrow> real \<Rightarrow> real \<Rightarrow> Vec3 option" where
  "find_aerial_target ball_prediction current_time distance =
     (case find_slice_at_time ball_prediction (current_time + aerial_lookahead distance) of
        Some target_slice \<Rightarrow>
          (let target_location = location (slice_physics target_slice)
           in if vec_z target_location > 400 then Some target_location else None)
      | None \<Rightarrow> None)"

text \<open>
  \<^verbatim>\<open>random.choice\<close>: an element at a position the generator draws, \<^verbatim>\<open>IndexError\<close> on an
  empty list. The draw is the argument \<open>rnd\<close>, reduced to a position of the list.
\<close>

definition random_choice :: "'a list \<Rightarrow> nat \<Rightarrow> error + 'a" where
  "random_choice xs rnd = (if xs = [] then Inl IndexError else Inr (xs ! (rnd mod length xs)))"

text \<open>
  The list \<^verbatim>\<open>tricks\<close> of \<^verbatim>\<open>choose_freestyle_aerial\<close> when the choice is made:
  \<^verbatim>\<open>list.remove\<close> deletes the first occurrence only.
\<close>

definition trick_candidates :: "int \<Rightarrow> string option \<Rightarrow> string list" where
  "trick_candidates boost_amount last_trick =
     (let tricks = [];
          tricks = (if boost_amount > 60
                    then tricks @ [''tornado'', ''ceiling_shuffle'', ''kuxir_twist'', ''flip_reset'', ''psycho'']
                    else tricks);
          tricks = (if boost_amount > 40
                    then tricks @ [''air_roll_shot'', ''musty_flick'', ''flip_reset'']
                    else tricks);
          tricks = tricks @ [''basic_aerial'', ''spinning_aerial'']
      in case last_trick of
           None \<Rightarrow> tricks
         | Some t \<Rightarrow> if t \<in> set tricks then remove1 t tricks else tricks)"

text \<open>
  \<^verbatim>\<open>choose_freestyle_aerial\<close>. An exception leaves the method where it is raised: the
  \<^verbatim>\<open>IndexError\<close> of \<^verbatim>\<open>packet.game_cars[self.index]\<close> and of \<^verbatim>\<open>random.choice\<close> on an empty
  list, and the \<^verbatim>\<open>AttributeError\<close> of \<^verbatim>\<open>ceiling_shuffle\<close>, which comes after the chosen trick
  is recorded and counted.
\<close>

definition choose_freestyle_aerial ::
  "GameTickPacket \<Rightarrow> Vec3 \<Rightarrow> int \<Rightarrow> nat \<Rightarrow> 'b AdvancedFreestyleBot \<Rightarrow>
   error + (SimpleControllerState option \<times> 'b AdvancedFreestyleBot)" where
  "choose_freestyle_aerial packet target_location boost_amount rnd self0 =
     (if index self0 < length (game_cars packet) then
        (case random_choice (trick_candidates boost_amount (last_trick_type self0)) rnd of
           Inl e \<Rightarrow> Inl e
         | Inr chosen_trick \<Rightarrow>
             (let self = self0\<lparr>last_trick_type := Some chosen_trick,
                               tricks_performed := tricks_performed self0 + 1\<rparr>
              in if chosen_trick = ''tornado'' then Inr (tornado_aerial packet target_location self)
                 else if chosen_trick = ''kuxir_twist'' then Inr (kuxir_twist packet target_location self)
                 else if chosen_trick = ''air_roll_shot'' then Inr (air_roll_shot packet target_location self)
                 else if chosen_trick = ''ceiling_shuffle'' then ceiling_shuffle packet target_location self
                 else if chosen_trick = ''spinning_aerial'' then Inr (spinning_aerial packet target_location self)
                 else if chosen_trick = ''psycho'' then Inr (psycho packet target_location self)
                 else if chosen_trick = ''musty_flick'' then Inr (musty_flick packet target_location self)
                 else if chosen_trick = ''flip_reset'' then Inr (flip_reset packet target_location self)
                 else Inr (basic_freestyle_aerial packet target_location self)))
      else Inl IndexError)"

definition ground_game_logic ::
  "'b Host \<Rightarrow> GameTickPacket \<Rightarrow> Slice list \<Rightarrow> PlayerInfo \<Rightarrow> Vec3 \<Rightarrow> Vec3 \<Rightarrow> real \<Rightarrow> real \<Rightarrow>
   'b AdvancedFreestyleBot \<Rightarrow> SimpleControllerState option \<times> 'b AdvancedFreestyleBot" where
  "ground_game_logic host packet ball_prediction my_car car_location ball_location distance speed self =
     (let target_location =
            (if distance > 1200 then
               (case find_slice_at_time ball_prediction
                       (seconds_elapsed (game_info packet) + min (distance / 1000.0) 2.0) of
                  Some ball_in_future \<Rightarrow> location (slice_physics ball_in_future)
                | None \<Rightarrow> ball_location)
             else ball_location)
      in if (0 < speed \<and> speed < 200) \<and> has_wheel_contact my_car \<and> distance > 1500 then
           speed_flip packet self
         else if (900 < speed \<and> speed < 1100) \<and> has_wheel_contact my_car \<and> distance > 800 then
           diagonal_flip packet self
         else if (1200 < speed \<and> speed < 1400) \<and> has_wheel_contact my_car \<and> distance > 1000 then
           speed_flip packet self
         else
           (let controls0 = SimpleControllerState_init
                  \<lparr>steer := steer_toward_target host my_car target_location, throttle := 1.0\<rparr>;
                controls1 = (if distance > 1500 \<and> car_boost my_car > 20 \<and> speed < 2200
                             then controls0\<lparr>boost := True\<rparr> else controls0)
            in (Some controls1, self)))"

text \<open>
  The part of \<^verbatim>\<open>get_output\<close> after the active sequence had its turn: the game state, the
  aerial decision and the ground game. \<^verbatim>\<open>draw_debug_info\<close> only renders and is left out.
\<close>

definition decide ::
  "'b Host \<Rightarrow> GameTickPacket \<Rightarrow> Slice list \<Rightarrow> nat \<Rightarrow> 'b AdvancedFreestyleBot \<Rightarrow>
   error + (SimpleControllerState option \<times> 'b AdvancedFreestyleBot)" where
  "decide host packet ball_prediction rnd self =
     (if index self < length (game_cars packet) then
        (let my_car = game_cars packet ! index self;
             car_location = location (physics my_car);
             car_velocity = velocity (physics my_car);
             ball_location = location (ball_physics (game_ball packet));
             current_time = seconds_elapsed (game_info packet);
             time_since_aerial = current_time - last_aerial_time self;
             car_to_ball = vec_sub host ball_location car_location;
             distance_to_ball = vec_length host car_to_ball;
             ball_height = vec_z ball_location;
             car_speed = vec_length host car_velocity;
             aerial_conditions = check_aerial_conditions self my_car ball_location ball_height
                                   distance_to_ball time_since_aerial
         in case (if aerial_conditions
                  then find_aerial_target ball_prediction current_time distance_to_ball
                  else None) of
              Some target \<Rightarrow>
                choose_freestyle_aerial packet target (car_boost my_car) rnd
                  (self\<lparr>last_aerial_time := current_time\<rparr>)
            | None \<Rightarrow>
                Inr (ground_game_logic host packet ball_prediction my_car car_location ball_location
                       distance_to_ball car_speed self))
      else Inl IndexError)"

text \<open>
  \<^verbatim>\<open>get_output\<close>: the boost pads are updated, an active sequence that is not done is ticked
  and its controls, when it has any, are returned; otherwise the decision logic runs, on
  the state the tick left. \<open>ball_prediction\<close> is what \<^verbatim>\<open>get_ball_prediction_struct\<close> returns
  in this tick and \<open>rnd\<close> the draw of the random generator.
\<close>

definition get_output ::
  "'b Host \<Rightarrow> GameTickPacket \<Rightarrow> Slice list \<Rightarrow> nat \<Rightarrow> 'b AdvancedFreestyleBot \<Rightarrow>
   error + (SimpleControllerState option \<times> 'b AdvancedFreestyleBot)" where
  "get_output host packet ball_prediction rnd self0 =
     (let self1 = self0\<lparr>boost_pad_tracker :=
                          update_boost_status host packet (boost_pad_tracker self0)\<rparr>;
          (controls_opt, self2) =
            (case active_sequence self1 of
               Some q \<Rightarrow>
                 if \<not> is_done q
                 then (let (c, q') = tick packet q in (c, self1\<lparr>active_sequence := Some q'\<rparr>))
                 else (None, self1)
             | None \<Rightarrow> (None, self1))
      in case controls_opt of
           Some c \<Rightarrow> Inr (Some c, self2)
         | None \<Rightarrow> decide host packet ball_prediction rnd self2)"

section \<open>Concrete inputs\<close>

text \<open>A grounded car with 70 boost and a bot as \<^verbatim>\<open>__init__\<close> leaves it (cooldown 3 seconds).\<close>

definition example_car :: PlayerInfo where
  "example_car =
     \<lparr>physics = \<lparr>location = Vec3 0 0 17, velocity = Vec3 150 0 0\<rparr>,
      car_boost = 70, is_super_sonic = False, has_wheel_contact = True\<rparr>"

definition example_bot :: "unit AdvancedFreestyleBot" where
  "example_bot = AdvancedFreestyleBot_init 0 ()"

text \<open>
  A packet with this car, the ball 1000 away at height 500 and the clock at 10 seconds; the
  same packet at another clock value; a choice of the helpers outside the sources; a ball
  prediction of three slices; and the two-step sequence of the specification's scenario.
\<close>

definition example_packet :: GameTickPacket where
  "example_packet =
     \<lparr>game_cars = [example_car],
      game_ball = \<lparr>ball_physics = \<lparr>location = Vec3 1000 0 500, velocity = Vec3 0 0 0\<rparr>\<rparr>,
      game_info = \<lparr>seconds_elapsed = 10\<rparr>\<rparr>"

definition packet_at :: "real \<Rightarrow> GameTickPacket" where
  "packet_at t = example_packet\<lparr>game_info := \<lparr>seconds_elapsed = t\<rparr>\<rparr>"

definition example_host :: "unit Host" where
  "example_host =
     \<lparr>update_boost_status = (\<lambda>packet pads. pads),
      vec_sub = (\<lambda>a b. Vec3 (vec_x a - vec_x b) (vec_y a - vec_y b) (vec_z a - vec_z b)),
      vec_length = (\<lambda>v. sqrt ((vec_x v)\<^sup>2 + (vec_y v)\<^sup>2 + (vec_z v)\<^sup>2)),
      steer_toward_target = (\<lambda>car target. 0)\<rparr>"

definition example_slices :: "Slice list" where
  "example_slices =
     [\<lparr>slice_physics = \<lparr>location = Vec3 1000 0 500, velocity = Vec3 0 0 0\<rparr>, game_seconds = 10\<rparr>,
      \<lparr>slice_physics = \<lparr>location = Vec3 1000 0 450, velocity = Vec3 0 0 0\<rparr>, game_seconds = 11\<rparr>,
      \<lparr>slice_physics = \<lparr>location = Vec3 1000 0 380, velocity = Vec3 0 0 0\<rparr>, game_seconds = 12\<rparr>]"

definition example_steps :: "ControlStep list" where
  "example_steps =
     [\<lparr>duration = 0.1, controls = SimpleControllerState_init\<lparr>jump := True\<rparr>\<rparr>,
      \<lparr>duration = 0.2, controls = SimpleControllerState_init\<lparr>boost := True\<rparr>\<rparr>]"

section \<open>Properties of the aerial decision\<close>

text \<open>
  C3. Aerial eligibility is the conjunction of six conditions: ball height above 350,
  distance strictly between 400 and 2200, boost above 35, time since the last aerial above
  the cooldown, not supersonic, wheel contact. \<^const>\<open>check_aerial_conditions\<close> is true exactly
  when all six hold, and when five of them hold its value is the value of the sixth, so a
  single failing condition makes it false.
\<close>

theorem check_aerial_conditions_is_conjunction:
  "(check_aerial_conditions self my_car ball_location ball_height distance_to_ball time_since_aerial
      \<longleftrightarrow> ball_height > 350 \<and> (400 < distance_to_ball \<and> distance_to_ball < 2200) \<and>
          car_boost my_car > 35 \<and> time_since_aerial > aerial_cooldown self \<and>
          \<not> is_super_sonic my_car \<and> has_wheel_contact my_car)
   \<and> ((400 < distance_to_ball \<and> distance_to_ball < 2200) \<and> car_boost my_car > 35 \<and>
        time_since_aerial > aerial_cooldown self \<and> \<not> is_super_sonic my_car \<and> has_wheel_contact my_car
        \<longrightarrow> check_aerial_conditions self my_car ball_location ball_height distance_to_ball time_since_aerial
              = (ball_height > 350))
   \<and> (ball_height > 350 \<and> car_boost my_car > 35 \<and>
        time_since_aerial > aerial_cooldown self \<and> \<not> is_super_sonic my_car \<and> has_wheel_contact my_car
        \<longrightarrow> check_aerial_conditions self my_car ball_location ball_height distance_to_ball time_since_aerial
              = (400 < distance_to_ball \<and> distance_to_ball < 2200))
   \<and> (ball_height > 350 \<and> (400 < distance_to_ball \<and> distance_to_ball < 2200) \<and>
        time_since_aerial > aerial_cooldown self \<and> \<not> is_super_sonic my_car \<and> has_wheel_contact my_car
        \<longrightarrow> check_aerial_conditions self my_car ball_location ball_height distance_to_ball time_since_aerial
              = (car_boost my_car > 35))
   \<and> (ball_height > 350 \<and> (400 < distance_to_ball \<and> distance_to_ball < 2200) \<and>
        car_boost my_car > 35 \<and> \<not> is_super_sonic my_car \<and> has_wheel_contact my_car
        \<longrightarrow> check_aerial_conditions self my_car ball_location ball_height distance_to_ball time_since_aerial
              = (time_since_aerial > aerial_cooldown self))
   \<and> (ball_height > 350 \<and> (400 < distance_to_ball \<and> distance_to_ball < 2200) \<and>
        car_boost my_car > 35 \<and> time_since_aerial > aerial_cooldown self \<and> has_wheel_contact my_car
        \<longrightarrow> check_aerial_conditions self my_car ball_location ball_height distance_to_ball time_since_aerial
              = (\<not> is_super_sonic my_car))
   \<and> (ball_height > 350 \<and> (400 < distance_to_ball \<and> distance_to_ball < 2200) \<and>
        car_boost my_car > 35 \<and> time_since_aerial > aerial_cooldown self \<and> \<not> is_super_sonic my_car
        \<longrightarrow> check_aerial_conditions self my_car ball_location ball_height distance_to_ball time_since_aerial
              = has_wheel_contact my_car)"
  unfolding check_aerial_conditions_def by blast

theorem check_aerial_conditions_is_conjunction_witness:
  "check_aerial_conditions example_bot example_car (Vec3 1000 0 500) 500 1000 5
   \<and> \<not> check_aerial_conditions example_bot (example_car\<lparr>car_boost := 35\<rparr>) (Vec3 1000 0 500) 500 1000 5
   \<and> \<not> check_aerial_conditions example_bot example_car (Vec3 1000 0 500) 500 1000 2"
  using check_aerial_conditions_is_conjunction
          [of example_bot example_car "Vec3 1000 0 500" 500 1000 5]
        check_aerial_conditions_is_conjunction
          [of example_bot "example_car\<lparr>car_boost := 35\<rparr>" "Vec3 1000 0 500" 500 1000 5]
        check_aerial_conditions_is_conjunction
          [of example_bot example_car "Vec3 1000 0 500" 500 1000 2]
  by (simp add: example_car_def example_bot_def AdvancedFreestyleBot_init_def)

text \<open>
  C7. The boost condition is strict: with the other five conditions satisfied, a car with
  boost 38 is eligible, a car with boost exactly 35 is not, and a car with boost \<open>b\<close> is
  eligible exactly when \<open>b > 35\<close>.
\<close>

theorem boost_threshold_strict:
  assumes "ball_height > 350" and "400 < distance_to_ball" and "distance_to_ball < 2200"
    and "time_since_aerial > aerial_cooldown self"
    and "\<not> is_super_sonic my_car" and "has_wheel_contact my_car"
  shows "check_aerial_conditions self (my_car\<lparr>car_boost := 38\<rparr>) ball_location ball_height
           distance_to_ball time_since_aerial
       \<and> \<not> check_aerial_conditions self (my_car\<lparr>car_boost := 35\<rparr>) ball_location ball_height
           distance_to_ball time_since_aerial
       \<and> check_aerial_conditions self (my_car\<lparr>car_boost := b\<rparr>) ball_location ball_height
           distance_to_ball time_since_aerial = (b > 35)"
  using assms by (simp add: check_aerial_conditions_def)

theorem boost_threshold_strict_witness:
  "check_aerial_conditions example_bot (example_car\<lparr>car_boost := 38\<rparr>) (Vec3 1000 0 500) 500 1000 5
   \<and> \<not> check_aerial_conditions example_bot (example_car\<lparr>car_boost := 35\<rparr>) (Vec3 1000 0 500) 500 1000 5"
proof -
  have h: "(500::real) > 350" "(400::real) < 1000" "(1000::real) < 2200"
    "(5::real) > aerial_cooldown example_bot"
    "\<not> is_super_sonic example_car" "has_wheel_contact example_car"
    by (simp_all add: example_car_def example_bot_def AdvancedFreestyleBot_init_def)
  from boost_threshold_strict [OF h, of "Vec3 1000 0 500" 0] show ?thesis by simp
qed

text \<open>
  C4. The lookahead of \<^const>\<open>find_aerial_target\<close> is \<open>min (0.5 + distance / 1500) 2.5\<close> for
  every distance: it is \<open>7 / 6\<close> at distance 1000, never above 2.5 (reached from distance
  3000 on), and the ball prediction is sampled at the current time plus this offset.
\<close>

theorem aerial_lookahead_capped:
  "aerial_lookahead distance = min (0.5 + distance / 1500) 2.5
   \<and> aerial_lookahead 1000 = 7 / 6
   \<and> aerial_lookahead distance \<le> 2.5
   \<and> aerial_lookahead distance = (if distance \<le> 3000 then 0.5 + distance / 1500 else 2.5)
   \<and> find_aerial_target ball_prediction current_time distance =
       (case find_slice_at_time ball_prediction
               (current_time + min (0.5 + distance / 1500) 2.5) of
          Some target_slice \<Rightarrow>
            if vec_z (location (slice_physics target_slice)) > 400
            then Some (location (slice_physics target_slice)) else None
        | None \<Rightarrow> None)"
proof -
  have formula: "aerial_lookahead distance = min (0.5 + distance / 1500) 2.5"
    by (simp add: aerial_lookahead_def)
  have scenario: "aerial_lookahead 1000 = 7 / 6"
    by (simp add: aerial_lookahead_def)
  have cap: "aerial_lookahead distance \<le> 2.5"
    unfolding formula by (rule min.cobounded2)
  have pieces: "aerial_lookahead distance = (if distance \<le> 3000 then 0.5 + distance / 1500 else 2.5)"
    unfolding formula by (simp add: min_def)
  have query: "find_aerial_target ball_prediction current_time distance =
       (case find_slice_at_time ball_prediction
               (current_time + min (0.5 + distance / 1500) 2.5) of
          Some target_slice \<Rightarrow>
            if vec_z (location (slice_physics target_slice)) > 400
            then Some (location (slice_physics target_slice)) else None
        | None \<Rightarrow> None)"
    unfolding find_aerial_target_def formula by (simp add: Let_def split: option.splits)
  from formula scenario cap pieces query show ?thesis by blast
qed

section \<open>Properties of trick selection\<close>

text \<open>
  The candidate list keeps at least one of the two baseline tricks: \<^verbatim>\<open>list.remove\<close> takes
  away one entry at most.
\<close>

lemma length_trick_candidates: "1 \<le> length (trick_candidates boost_amount last_trick)"
  by (cases last_trick) (simp_all add: trick_candidates_def Let_def length_remove1)

text \<open>
  C9. For every boost amount and every last trick the candidate list is not empty after
  the removal (the two baseline tricks are always appended and the removal takes away one
  entry at most), so \<^const>\<open>random_choice\<close> succeeds for every draw and returns an entry of
  the list: the selection never meets an empty list.
\<close>

theorem trick_candidates_nonempty:
  "trick_candidates boost_amount last_trick \<noteq> []
   \<and> (\<exists>t. random_choice (trick_candidates boost_amount last_trick) rnd = Inr t
          \<and> t \<in> set (trick_candidates boost_amount last_trick))"
proof -
  let ?tricks = "trick_candidates boost_amount last_trick"
  have ne: "?tricks \<noteq> []"
    using length_trick_candidates [of boost_amount last_trick] by auto
  then have pos: "rnd mod length ?tricks < length ?tricks" by simp
  have choice: "random_choice ?tricks rnd = Inr (?tricks ! (rnd mod length ?tricks))"
    using ne by (simp add: random_choice_def)
  have mem: "?tricks ! (rnd mod length ?tricks) \<in> set ?tricks"
    using pos by (rule nth_mem)
  from ne choice mem show ?thesis by blast
qed

text \<open>
  The errors of \<^const>\<open>choose_freestyle_aerial\<close>: \<^verbatim>\<open>IndexError\<close> exactly when the bot's index
  is not a car of the packet, never from the selection; \<^verbatim>\<open>AttributeError\<close> exactly when the
  index is a car of the packet and the draw selects \<^verbatim>\<open>'ceiling_shuffle'\<close>.
\<close>

lemma choose_freestyle_aerial_errors:
  "(choose_freestyle_aerial packet target_location boost_amount rnd self = Inl IndexError
      \<longleftrightarrow> \<not> index self < length (game_cars packet))
   \<and> (choose_freestyle_aerial packet target_location boost_amount rnd self = Inl AttributeError
      \<longleftrightarrow> index self < length (game_cars packet) \<and>
          random_choice (trick_candidates boost_amount (last_trick_type self)) rnd
            = Inr ''ceiling_shuffle'')"
proof -
  let ?tricks = "trick_candidates boost_amount (last_trick_type self)"
  have "?tricks \<noteq> []"
    using length_trick_candidates [of boost_amount "last_trick_type self"] by auto
  then have "random_choice ?tricks rnd = Inr (?tricks ! (rnd mod length ?tricks))"
    by (simp add: random_choice_def)
  then show ?thesis
    by (simp add: choose_freestyle_aerial_def ceiling_shuffle_def Let_def)
qed

lemma ceiling_shuffle_raises:
  "choose_freestyle_aerial example_packet (Vec3 1000 0 600) 70 1 example_bot = Inl AttributeError"
  by (simp add: choose_freestyle_aerial_def ceiling_shuffle_def trick_candidates_def
      random_choice_def example_bot_def example_packet_def AdvancedFreestyleBot_init_def)

text \<open>
  C1. The same trick can be selected twice in a row. With boost 70 the list holds
  \<^verbatim>\<open>'flip_reset'\<close> twice, once from the high tier and once from the medium tier, and the
  removal deletes one of the two. After a selection of \<^verbatim>\<open>'flip_reset'\<close> (draw 3 of a new
  bot), nine candidates remain and draw 6 selects \<^verbatim>\<open>'flip_reset'\<close> again.
\<close>

theorem flip_reset_chosen_twice:
  "trick_candidates 70 (Some ''flip_reset'') =
     [''tornado'', ''ceiling_shuffle'', ''kuxir_twist'', ''psycho'',
      ''air_roll_shot'', ''musty_flick'', ''flip_reset'', ''basic_aerial'', ''spinning_aerial'']
   \<and> random_choice (trick_candidates 70 (Some ''flip_reset'')) 6 = Inr ''flip_reset''
   \<and> (case choose_freestyle_aerial example_packet (Vec3 1000 0 600) 70 3 example_bot of
         Inl e \<Rightarrow> False
       | Inr (out1, bot1) \<Rightarrow>
           last_trick_type bot1 = Some ''flip_reset'' \<and>
           (case choose_freestyle_aerial example_packet (Vec3 1000 0 600) 70 6 bot1 of
              Inl e \<Rightarrow> False
            | Inr (out2, bot2) \<Rightarrow>
                last_trick_type bot2 = Some ''flip_reset'' \<and> tricks_performed bot2 = 2))"
proof -
  have cands: "trick_candidates 70 (Some ''flip_reset'') =
     [''tornado'', ''ceiling_shuffle'', ''kuxir_twist'', ''psycho'',
      ''air_roll_shot'', ''musty_flick'', ''flip_reset'', ''basic_aerial'', ''spinning_aerial'']"
    by (simp add: trick_candidates_def)
  have again: "random_choice (trick_candidates 70 (Some ''flip_reset'')) 6 = Inr ''flip_reset''"
    unfolding cands by (simp add: random_choice_def)
  have first: "random_choice (trick_candidates 70 None) 3 = Inr ''flip_reset''"
    by (simp add: trick_candidates_def random_choice_def)
  have idx: "index example_bot < length (game_cars example_packet)"
    by (simp add: example_bot_def example_packet_def AdvancedFreestyleBot_init_def)
  have last0: "last_trick_type example_bot = None"
    by (simp add: example_bot_def AdvancedFreestyleBot_init_def)
  have n0: "tricks_performed example_bot = 0"
    by (simp add: example_bot_def AdvancedFreestyleBot_init_def)
  have two: "(case choose_freestyle_aerial example_packet (Vec3 1000 0 600) 70 3 example_bot of
         Inl e \<Rightarrow> False
       | Inr (out1, bot1) \<Rightarrow>
           last_trick_type bot1 = Some ''flip_reset'' \<and>
           (case choose_freestyle_aerial example_packet (Vec3 1000 0 600) 70 6 bot1 of
              Inl e \<Rightarrow> False
            | Inr (out2, bot2) \<Rightarrow>
                last_trick_type bot2 = Some ''flip_reset'' \<and> tricks_performed bot2 = 2))"
    using idx
    by (simp add: choose_freestyle_aerial_def last0 n0 first again flip_reset_def
        start_sequence_def send_quick_chat_def Let_def split: prod.splits)
  from cands again two show ?thesis by blast
qed

text \<open>
  Every other trick, and \<^verbatim>\<open>'flip_reset'\<close> itself when the boost is at most 60, stands once
  in the list and cannot be selected again at once.
\<close>

lemma no_repeat_of_single_entries:
  assumes "t \<noteq> ''flip_reset'' \<or> boost_amount \<le> 60"
  shows "t \<notin> set (trick_candidates boost_amount (Some t))"
  using assms by (auto simp add: trick_candidates_def Let_def)

section \<open>Properties of the ground game\<close>

text \<open>
  C8. At speed 150 with wheel contact and distance 1800, \<^const>\<open>ground_game_logic\<close> starts the
  speed flip instead of steering: the result is that of \<^const>\<open>speed_flip\<close>, whose output is
  the controls of the first step (jump, boost, pitch 0.2), with the new sequence in the
  active slot and the quick chat sent.
\<close>

theorem speed_flip_from_slow_start:
  assumes "has_wheel_contact my_car"
  shows "ground_game_logic host packet ball_prediction my_car car_location ball_location 1800 150 self
           = speed_flip packet self
       \<and> fst (speed_flip packet self)
           = Some (SimpleControllerState_init\<lparr>jump := True, boost := True, pitch := 0.2\<rparr>)
       \<and> active_sequence (snd (speed_flip packet self))
           = Some \<lparr>steps = speed_flip_steps, start_time = Some (seconds_elapsed (game_info packet)),
                   elapsed = 0, is_done = False\<rparr>
       \<and> quick_chats (snd (speed_flip packet self)) = quick_chats self @ [Reactions_Siiiick]"
proof -
  have branch: "ground_game_logic host packet ball_prediction my_car car_location ball_location 1800 150 self
           = speed_flip packet self"
    using assms by (simp add: ground_game_logic_def Let_def)
  have first: "tick packet (Sequence_init speed_flip_steps) =
      (Some (SimpleControllerState_init\<lparr>jump := True, boost := True, pitch := 0.2\<rparr>),
       \<lparr>steps = speed_flip_steps, start_time = Some (seconds_elapsed (game_info packet)),
                   elapsed = 0, is_done = False\<rparr>)"
    by (simp add: tick_def advance_def Sequence_init_def speed_flip_steps_def Let_def)
  show ?thesis
    using branch by (simp add: speed_flip_def start_sequence_def first send_quick_chat_def)
qed

theorem speed_flip_from_slow_start_witness:
  "has_wheel_contact example_car
   \<and> ground_game_logic example_host example_packet example_slices example_car
        (Vec3 0 0 17) (Vec3 1800 0 93) 1800 150 example_bot
       = speed_flip example_packet example_bot
   \<and> fst (speed_flip example_packet example_bot)
       = Some (SimpleControllerState_init\<lparr>jump := True, boost := True, pitch := 0.2\<rparr>)"
proof -
  have h: "has_wheel_contact example_car" by (simp add: example_car_def)
  from speed_flip_from_slow_start [OF h] h show ?thesis by blast
qed

text \<open>
  C10. At speed exactly 0, with wheel contact and distance above 1500, no flip starts
  (\<open>0 < speed\<close> fails): \<^const>\<open>ground_game_logic\<close> returns the direct-steering controls, full
  throttle towards the predicted ball with boost when the car has more than 20, and leaves
  the bot as it was.
\<close>

theorem no_speed_flip_at_standstill:
  assumes "has_wheel_contact my_car" and "distance > 1500"
  shows "ground_game_logic host packet ball_prediction my_car car_location ball_location distance 0 self
           = (Some (SimpleControllerState_init
                \<lparr>steer := steer_toward_target host my_car
                    (case find_slice_at_time ball_prediction
                            (seconds_elapsed (game_info packet) + min (distance / 1000) 2) of
                       Some ball_in_future \<Rightarrow> location (slice_physics ball_in_future)
                     | None \<Rightarrow> ball_location),
                 throttle := 1,
                 boost := car_boost my_car > 20\<rparr>), self)"
  using assms by (simp add: ground_game_logic_def Let_def SimpleControllerState_init_def)

theorem no_speed_flip_at_standstill_witness:
  "has_wheel_contact example_car \<and> (1800::real) > 1500
   \<and> ground_game_logic example_host example_packet [] example_car
        (Vec3 0 0 17) (Vec3 1800 0 93) 1800 0 example_bot
       = (Some (SimpleControllerState_init\<lparr>throttle := 1, boost := True\<rparr>), example_bot)"
proof -
  have h: "has_wheel_contact example_car" "(1800::real) > 1500" by (simp_all add: example_car_def)
  from no_speed_flip_at_standstill [OF h, of example_host example_packet "[]" "Vec3 0 0 17"
      "Vec3 1800 0 93" example_bot] h
  show ?thesis by (simp add: example_host_def example_car_def SimpleControllerState_init_def)
qed

section \<open>Properties of the active sequence\<close>

text \<open>
  A tick changes the progress of a sequence, never its steps.
\<close>

lemma tick_steps: "steps (snd (tick packet q)) = steps q"
  by (simp add: tick_def advance_def Let_def split: option.splits)

text \<open>
  C5. When the active sequence is not done and its tick yields controls, \<^const>\<open>get_output\<close>
  returns exactly these controls and runs no decision logic: of the bot, only the boost pad
  tracker is updated and the sequence in the active slot has advanced (same steps);
  \<open>last_aerial_time\<close>, \<open>tricks_performed\<close> and \<open>last_trick_type\<close> are unchanged.
\<close>

theorem active_sequence_preempts_decision:
  assumes "active_sequence self = Some q" and "\<not> is_done q" and "tick packet q = (Some c, q')"
  shows "get_output host packet ball_prediction rnd self =
           Inr (Some c, self\<lparr>boost_pad_tracker := update_boost_status host packet (boost_pad_tracker self),
                              active_sequence := Some q'\<rparr>)
       \<and> (case get_output host packet ball_prediction rnd self of
             Inl e \<Rightarrow> False
           | Inr (out, self') \<Rightarrow>
               out = Some c \<and>
               last_aerial_time self' = last_aerial_time self \<and>
               tricks_performed self' = tricks_performed self \<and>
               last_trick_type self' = last_trick_type self \<and>
               active_sequence self' = Some q' \<and> steps q' = steps q)"
proof -
  have out: "get_output host packet ball_prediction rnd self =
           Inr (Some c, self\<lparr>boost_pad_tracker := update_boost_status host packet (boost_pad_tracker self),
                              active_sequence := Some q'\<rparr>)"
    using assms by (simp add: get_output_def Let_def)
  have same: "steps q' = steps q"
    using tick_steps [of packet q] assms(3) by simp
  show ?thesis unfolding out using same by simp
qed

theorem active_sequence_preempts_decision_witness:
  "get_output example_host (packet_at 10.05) example_slices 0
     (example_bot\<lparr>active_sequence :=
        Some \<lparr>steps = example_steps, start_time = Some 10, elapsed = 0, is_done = False\<rparr>\<rparr>)
   = Inr (Some (SimpleControllerState_init\<lparr>jump := True\<rparr>),
          example_bot\<lparr>active_sequence :=
            Some \<lparr>steps = example_steps, start_time = Some 10, elapsed = 0.05, is_done = False\<rparr>\<rparr>)"
proof -
  let ?q = "\<lparr>steps = example_steps, start_time = Some 10, elapsed = 0, is_done = False\<rparr>"
  let ?q' = "\<lparr>steps = example_steps, start_time = Some 10, elapsed = 0.05, is_done = False\<rparr>"
  let ?bot = "example_bot\<lparr>active_sequence := Some ?q\<rparr>"
  have a: "active_sequence ?bot = Some ?q" by simp
  have b: "\<not> is_done ?q" by simp
  have c: "tick (packet_at 10.05) ?q = (Some (SimpleControllerState_init\<lparr>jump := True\<rparr>), ?q')"
    by (simp add: tick_def advance_def packet_at_def example_steps_def Let_def)
  from active_sequence_preempts_decision [OF a b c, of example_host example_slices 0]
  show ?thesis by (simp add: example_host_def)
qed

section \<open>Properties of the trajectory sampler\<close>

text \<open>
  What \<^const>\<open>find_slice_at_time\<close> returns is a slice of the list at or after the target
  time; it returns nothing exactly when every slice is before the target time.
\<close>

lemma find_slice_at_time_Some:
  "find_slice_at_time slices t = Some s \<Longrightarrow> s \<in> set slices \<and> t \<le> game_seconds s"
  by (induction slices) (auto split: if_splits)

lemma find_slice_at_time_None:
  "find_slice_at_time slices t = None \<longleftrightarrow> (\<forall>s \<in> set slices. game_seconds s < t)"
  by (induction slices) auto

lemma find_slice_at_time_closest:
  "sorted (map game_seconds slices) \<Longrightarrow> find_slice_at_time slices t = Some s \<Longrightarrow>
   s' \<in> set slices \<Longrightarrow> t \<le> game_seconds s' \<Longrightarrow> game_seconds s \<le> game_seconds s'"
proof (induction slices)
  case Nil
  then show ?case by simp
next
  case (Cons a slices)
  show ?case
  proof (cases "t \<le> game_seconds a")
    case True
    with Cons.prems have "s = a" by simp
    with Cons.prems show ?thesis by auto
  next
    case False
    with Cons.prems have "find_slice_at_time slices t = Some s" by simp
    moreover from False Cons.prems have "s' \<in> set slices" by auto
    moreover from Cons.prems have "sorted (map game_seconds slices)" by simp
    ultimately show ?thesis using Cons.IH Cons.prems(4) by blast
  qed
qed

lemma sorted_last_greatest:
  "sorted (map game_seconds slices) \<Longrightarrow> s \<in> set slices \<Longrightarrow>
   game_seconds s \<le> game_seconds (last slices)"
  by (induction slices) (auto split: if_splits)

text \<open>
  C6. For time-ascending slices: when the list is not empty and the target time is not
  after the last timestamp, \<^const>\<open>find_slice_at_time\<close> returns a slice of the list whose
  timestamp is at or after the target time and is the least such timestamp; when the list
  is empty or the target time is after the last timestamp, it returns nothing.
\<close>

theorem find_slice_at_time_at_or_after:
  assumes "sorted (map game_seconds slices)"
  shows "(slices \<noteq> [] \<and> t \<le> game_seconds (last slices) \<longrightarrow>
            (\<exists>s. find_slice_at_time slices t = Some s \<and> s \<in> set slices \<and> t \<le> game_seconds s \<and>
                 (\<forall>s' \<in> set slices. t \<le> game_seconds s' \<longrightarrow> game_seconds s \<le> game_seconds s')))
       \<and> (slices = [] \<or> game_seconds (last slices) < t \<longrightarrow> find_slice_at_time slices t = None)"
proof (intro conjI impI)
  assume within: "slices \<noteq> [] \<and> t \<le> game_seconds (last slices)"
  then have "last slices \<in> set slices" by simp
  with within have "\<not> (\<forall>s \<in> set slices. game_seconds s < t)"
    using leD by blast
  then obtain s where found: "find_slice_at_time slices t = Some s"
    using find_slice_at_time_None [of slices t] by (cases "find_slice_at_time slices t") auto
  from find_slice_at_time_Some [OF found]
  have "s \<in> set slices" and "t \<le> game_seconds s" by simp_all
  moreover have "\<forall>s' \<in> set slices. t \<le> game_seconds s' \<longrightarrow> game_seconds s \<le> game_seconds s'"
    using find_slice_at_time_closest [OF assms found] by blast
  ultimately show "\<exists>s. find_slice_at_time slices t = Some s \<and> s \<in> set slices \<and> t \<le> game_seconds s \<and>
                 (\<forall>s' \<in> set slices. t \<le> game_seconds s' \<longrightarrow> game_seconds s \<le> game_seconds s')"
    using found by blast
next
  assume beyond: "slices = [] \<or> game_seconds (last slices) < t"
  show "find_slice_at_time slices t = None"
  proof (cases "slices = []")
    case True
    then show ?thesis by simp
  next
    case False
    with beyond have late: "game_seconds (last slices) < t" by simp
    have "\<forall>s \<in> set slices. game_seconds s < t"
    proof
      fix s assume "s \<in> set slices"
      from sorted_last_greatest [OF assms this] late show "game_seconds s < t" by simp
    qed
    then show ?thesis by (simp add: find_slice_at_time_None)
  qed
qed

theorem find_slice_at_time_at_or_after_witness:
  "sorted (map game_seconds example_slices)
   \<and> find_slice_at_time example_slices 10.5 = Some (example_slices ! 1)
   \<and> game_seconds (example_slices ! 1) = 11
   \<and> find_slice_at_time example_slices 12.5 = None
   \<and> find_slice_at_time [] 10 = None"
  using find_slice_at_time_at_or_after [of example_slices "10.5"]
        find_slice_at_time_at_or_after [of example_slices "12.5"]
        find_slice_at_time_at_or_after [of "[]" 10]
  by (simp add: example_slices_def)

section \<open>Properties of the timed control sequence\<close>

text \<open>
  The scenario of the specification: steps of 0.1 and 0.2 seconds yield the first step at
  0.05, the second at 0.15 and nothing at 0.35, where the sequence becomes done.
\<close>

lemma advance_scenario:
  "fst (advance 0.05 (Sequence_init example_steps)) = Some (SimpleControllerState_init\<lparr>jump := True\<rparr>)
   \<and> fst (advance 0.15 (Sequence_init example_steps)) = Some (SimpleControllerState_init\<lparr>boost := True\<rparr>)
   \<and> advance 0.35 (Sequence_init example_steps)
       = (None, \<lparr>steps = example_steps, start_time = None, elapsed = 0.35, is_done = True\<rparr>)"
  by (simp add: advance_def Sequence_init_def example_steps_def)

text \<open>
  The active index is a position of the step list; there is one while the elapsed time
  is below the total duration, and none from the total duration on.
\<close>

lemma active_index_bound:
  "active_index ss cumulative e i = Some j \<Longrightarrow> i \<le> j \<and> j < i + length ss"
proof (induction ss arbitrary: cumulative i)
  case Nil
  then show ?case by simp
next
  case (Cons s ss)
  show ?case
  proof (cases "cumulative + duration s > e")
    case True
    with Cons.prems show ?thesis by simp
  next
    case False
    with Cons.prems have "active_index ss (cumulative + duration s) e (Suc i) = Some j" by simp
    from Cons.IH [OF this] show ?thesis by simp
  qed
qed

lemma total_duration_nonneg:
  "\<forall>s \<in> set ss. 0 \<le> duration s \<Longrightarrow> 0 \<le> total_duration ss"
  unfolding total_duration_def by (rule sum_list_nonneg) auto

lemma active_index_exhausted:
  "\<forall>s \<in> set ss. 0 \<le> duration s \<Longrightarrow> cumulative + total_duration ss \<le> e \<Longrightarrow>
   active_index ss cumulative e i = None"
proof (induction ss arbitrary: cumulative i)
  case Nil
  then show ?case by simp
next
  case (Cons s ss)
  from Cons.prems(1) have rest: "\<forall>s \<in> set ss. 0 \<le> duration s" by simp
  then have "0 \<le> total_duration ss" by (rule total_duration_nonneg)
  moreover from Cons.prems(2) have sum: "(cumulative + duration s) + total_duration ss \<le> e"
    by (simp add: total_duration_def add.assoc)
  ultimately have "\<not> cumulative + duration s > e" by simp
  moreover have "active_index ss (cumulative + duration s) e (Suc i) = None"
    using rest sum by (rule Cons.IH)
  ultimately show ?case by simp
qed

lemma active_index_within:
  "cumulative \<le> e \<Longrightarrow> e < cumulative + total_duration ss \<Longrightarrow>
   \<exists>j. active_index ss cumulative e i = Some j"
proof (induction ss arbitrary: cumulative i)
  case Nil
  then show ?case by (simp add: total_duration_def)
next
  case (Cons s ss)
  show ?case
  proof (cases "cumulative + duration s > e")
    case True
    then show ?thesis by simp
  next
    case False
    then have "cumulative + duration s \<le> e" by simp
    moreover from Cons.prems(2) have "e < (cumulative + duration s) + total_duration ss"
      by (simp add: total_duration_def add.assoc)
    ultimately have "\<exists>j. active_index ss (cumulative + duration s) e (Suc i) = Some j"
      by (rule Cons.IH)
    with False show ?thesis by simp
  qed
qed

lemma advance_exhausted:
  assumes "\<forall>s \<in> set (steps q). 0 \<le> duration s" and "total_duration (steps q) \<le> e"
  shows "advance e q = (None, q\<lparr>elapsed := e, is_done := True\<rparr>)"
proof -
  have "active_index (steps q) 0 e 0 = None"
    using assms by (intro active_index_exhausted) simp_all
  then show ?thesis by (simp add: advance_def)
qed

lemma tick_exhausted:
  assumes "\<forall>s \<in> set (steps q). 0 \<le> duration s" and "total_duration (steps q) \<le> elapsed_at q p"
  shows "fst (tick p q) = None \<and> is_done (snd (tick p q))"
proof -
  let ?now = "seconds_elapsed (game_info p)"
  let ?t0 = "case start_time q of None \<Rightarrow> ?now | Some t \<Rightarrow> t"
  let ?q = "q\<lparr>start_time := Some ?t0\<rparr>"
  have "\<forall>s \<in> set (steps ?q). 0 \<le> duration s" using assms(1) by simp
  moreover have "total_duration (steps ?q) \<le> ?now - ?t0"
    using assms(2) by (simp add: elapsed_at_def)
  ultimately have "advance (?now - ?t0) ?q = (None, ?q\<lparr>elapsed := ?now - ?t0, is_done := True\<rparr>)"
    by (rule advance_exhausted)
  then show ?thesis by (simp add: tick_def Let_def)
qed

lemma elapsed_at_after_tick:
  "seconds_elapsed (game_info p) \<le> seconds_elapsed (game_info p') \<Longrightarrow>
   elapsed_at q p \<le> elapsed_at (snd (tick p q)) p'"
  by (simp add: tick_def advance_def elapsed_at_def Let_def split: option.splits)

lemma tick_all_exhausted:
  "\<forall>s \<in> set (steps q). 0 \<le> duration s \<Longrightarrow> total_duration (steps q) \<le> elapsed_at q p \<Longrightarrow>
   sorted (map (\<lambda>p. seconds_elapsed (game_info p)) (p # ps)) \<Longrightarrow>
   fst (tick_all (p # ps) q) = replicate (Suc (length ps)) None \<and> is_done (snd (tick_all (p # ps) q))"
proof (induction ps arbitrary: p q)
  case Nil
  from tick_exhausted [OF Nil.prems(1,2)] show ?case
    by (simp add: Let_def case_prod_beta)
next
  case (Cons p' ps)
  let ?q' = "snd (tick p q)"
  from tick_exhausted [OF Cons.prems(1,2)]
  have now: "fst (tick p q) = None" "is_done ?q'" by simp_all
  have steps': "\<forall>s \<in> set (steps ?q'). 0 \<le> duration s"
    using Cons.prems(1) by (simp add: tick_steps)
  from Cons.prems(3) have le: "seconds_elapsed (game_info p) \<le> seconds_elapsed (game_info p')"
    by simp
  have late': "total_duration (steps ?q') \<le> elapsed_at ?q' p'"
    using Cons.prems(2) elapsed_at_after_tick [OF le, of q] by (simp add: tick_steps)
  from Cons.prems(3) have mono': "sorted (map (\<lambda>p. seconds_elapsed (game_info p)) (p' # ps))"
    by simp
  from Cons.IH [OF steps' late' mono']
  have rest: "fst (tick_all (p' # ps) ?q') = replicate (Suc (length ps)) None"
    "is_done (snd (tick_all (p' # ps) ?q'))" by simp_all
  have unfold: "tick_all (p # p' # ps) q =
      (fst (tick p q) # fst (tick_all (p' # ps) ?q'), snd (tick_all (p' # ps) ?q'))"
    by (simp add: Let_def case_prod_beta)
  show ?case unfolding unfold using now rest by simp
qed

text \<open>
  C2. For a sequence with non-negative step durations: a tick whose elapsed time is at
  least the total planned duration yields nothing and leaves the sequence done, and so does
  every later tick, for any packets whose clock does not decrease: all outputs of
  \<^const>\<open>tick_all\<close> are \<open>None\<close> and the sequence is done at the end.
\<close>

theorem done_is_terminal:
  assumes "\<forall>s \<in> set (steps q). 0 \<le> duration s"
    and "total_duration (steps q) \<le> elapsed_at q p"
    and "sorted (map (\<lambda>p. seconds_elapsed (game_info p)) (p # ps))"
  shows "fst (tick p q) = None \<and> is_done (snd (tick p q))
       \<and> fst (tick_all (p # ps) q) = replicate (Suc (length ps)) None
       \<and> is_done (snd (tick_all (p # ps) q))"
  using tick_exhausted [OF assms(1,2)] tick_all_exhausted [OF assms] by simp

theorem done_is_terminal_witness:
  "list_all (\<lambda>s. 0 \<le> duration s) example_steps
   \<and> total_duration example_steps = 0.3
   \<and> elapsed_at \<lparr>steps = example_steps, start_time = Some 10, elapsed = 0.15, is_done = False\<rparr>
        (packet_at 10.3) = 0.3
   \<and> fst (tick_all [packet_at 10.3, packet_at 10.35, packet_at 10.35, packet_at 12]
        \<lparr>steps = example_steps, start_time = Some 10, elapsed = 0.15, is_done = False\<rparr>)
       = [None, None, None, None]"
proof -
  let ?q = "\<lparr>steps = example_steps, start_time = Some 10, elapsed = 0.15, is_done = False\<rparr>"
  have a: "\<forall>s \<in> set (steps ?q). 0 \<le> duration s" by (simp add: example_steps_def)
  have total: "total_duration example_steps = 0.3" by (simp add: total_duration_def example_steps_def)
  have at: "elapsed_at ?q (packet_at 10.3) = 0.3" by (simp add: elapsed_at_def packet_at_def)
  have b: "total_duration (steps ?q) \<le> elapsed_at ?q (packet_at 10.3)"
    unfolding at by (simp add: total)
  have c: "sorted (map (\<lambda>p. seconds_elapsed (game_info p))
             (packet_at 10.3 # [packet_at 10.35, packet_at 10.35, packet_at 12]))"
    by (simp add: packet_at_def)
  from done_is_terminal [OF a b c]
  have outs: "fst (tick_all [packet_at 10.3, packet_at 10.35, packet_at 10.35, packet_at 12] ?q)
       = [None, None, None, None]"
    by (simp add: numeral_eq_Suc)
  from a have a': "list_all (\<lambda>s. 0 \<le> duration s) example_steps"
    by (simp add: list_all_iff)
  from a' total at outs show ?thesis by blast
qed

end
